theory Spec2Isabelle
  imports Main "HOL-Library.AList" "HOL-Library.Sublist"
begin

section \<open>Python values as the bot sees them\<close>

text \<open>
  A Python \<open>str\<close> is a sequence of Unicode code points, so strings are lists of
  code points. ASCII literals are written through \<open>asc\<close>; the Cyrillic literals of
  \<open>bot.py\<close> are spelled out as code points, with a transliteration beside them.
\<close>

type_synonym ustr = "nat list"

definition asc :: "string \<Rightarrow> ustr" where
  "asc s = map of_char s"

text \<open>
  A float is kept with its sign, so that \<open>-0.0\<close> and the sign of a value that rounds
  to zero are there: \<open>Finite neg m e\<close> is the double \<open>(-1)^neg * m * 2^e\<close>.
\<close>

datatype pyfloat = Finite bool nat int | Inf bool | NaN

text \<open>
  What \<open>json.load\<close> and \<open>requests.Response.json\<close> return: \<open>None\<close>, \<open>bool\<close>,
  \<open>int\<close>, \<open>float\<close>, \<open>str\<close>, \<open>list\<close> and \<open>dict\<close> (keys are strings, in
  insertion order).
\<close>

datatype json =
    JNull
  | JBool bool
  | JInt int
  | JFloat pyfloat
  | JStr ustr
  | JArr "json list"
  | JObj "(ustr \<times> json) list"

datatype error =
    TypeError | ValueError | IndexError | KeyError | AttributeError | OverflowError
  | OSError
  | ConnectionError | Timeout | HTTPError | JSONDecodeError

definition ebind :: "error + 'a \<Rightarrow> ('a \<Rightarrow> error + 'b) \<Rightarrow> error + 'b" where
  "ebind m f = (case m of Inl e \<Rightarrow> Inl e | Inr x \<Rightarrow> f x)"

text \<open>
  Facts of the interpreter that the text of \<open>bot.py\<close> does not fix are parameters of
  the model: the shortest-digits \<open>repr\<close> of a float, the quoting \<open>repr\<close> of a string,
  the digit value of a non-ASCII decimal digit (\<open>\d\<close> and \<open>int()\<close> accept them),
  which non-ASCII code points count as white space for \<open>int()\<close>, what
  \<open>strftime("%Y")\<close> prints for a year below 1000 (it depends on the C library), and
  \<open>sys.get_int_max_str_digits()\<close>, the limit on the digits of an int that is turned into
  a decimal string or read from one (4300 unless configured; 0 is no limit).
  Every theorem holds for all values of these parameters.
\<close>

record pyrt =
  float_repr :: "pyfloat \<Rightarrow> ustr"
  str_repr :: "ustr \<Rightarrow> ustr"
  nd_value :: "nat \<Rightarrow> nat option"
  uni_space :: "nat \<Rightarrow> bool"
  small_year :: "nat \<Rightarrow> ustr"
  max_str_digits :: nat

subsection \<open>len, indexing, dict.get\<close>

fun py_len :: "json \<Rightarrow> error + nat" where
  "py_len (JArr xs) = Inr (length xs)"
| "py_len (JStr s) = Inr (length s)"
| "py_len (JObj kvs) = Inr (length kvs)"
| "py_len JNull = Inl TypeError"
| "py_len (JBool b) = Inl TypeError"
| "py_len (JInt n) = Inl TypeError"
| "py_len (JFloat f) = Inl TypeError"

definition seq_index :: "'a list \<Rightarrow> int \<Rightarrow> error + 'a" where
  "seq_index xs i =
     (if 0 \<le> i \<and> i < int (length xs) then Inr (xs ! nat i)
      else if i < 0 \<and> - int (length xs) \<le> i then Inr (xs ! nat (int (length xs) + i))
      else Inl IndexError)"

text \<open>
  \<open>x[i]\<close> for an integer \<open>i\<close>: a list or a string counts a negative index from the
  end; a dict from \<open>json\<close> has string keys only, so an integer key is a KeyError.
\<close>

fun py_getitem :: "json \<Rightarrow> int \<Rightarrow> error + json" where
  "py_getitem (JArr xs) i = seq_index xs i"
| "py_getitem (JStr s) i = ebind (seq_index s i) (\<lambda>c. Inr (JStr [c]))"
| "py_getitem (JObj kvs) i = Inl KeyError"
| "py_getitem JNull i = Inl TypeError"
| "py_getitem (JBool b) i = Inl TypeError"
| "py_getitem (JInt n) i = Inl TypeError"
| "py_getitem (JFloat f) i = Inl TypeError"

definition dict_get :: "(ustr \<times> json) list \<Rightarrow> ustr \<Rightarrow> json \<Rightarrow> json" where
  "dict_get d k dflt = (case map_of d k of Some v \<Rightarrow> v | None \<Rightarrow> dflt)"

subsection \<open>Decimal digits, str and repr\<close>

fun dec :: "nat \<Rightarrow> ustr" where
  "dec n = (if n < 10 then [48 + n] else dec (n div 10) @ [48 + n mod 10])"

declare dec.simps [simp del]

definition str_int :: "int \<Rightarrow> ustr" where
  "str_int n = (if n < 0 then asc ''-'' @ dec (nat (- n)) else dec (nat n))"

fun join :: "ustr \<Rightarrow> ustr list \<Rightarrow> ustr" where
  "join sep [] = []"
| "join sep [x] = x"
| "join sep (x # y # ys) = x @ sep @ join sep (y # ys)"

text \<open>
  The interpreter refuses to turn an int of more digits than the limit into a decimal
  string, and to read one from a string: a ValueError. The limit is 0 (none) or at least
  640, the least value \<open>sys.set_int_max_str_digits\<close> takes.
\<close>

definition within_limit :: "pyrt \<Rightarrow> nat \<Rightarrow> bool" where
  "within_limit rt k = (max_str_digits rt = 0 \<or> k \<le> max 640 (max_str_digits rt))"

text \<open>\<open>str(n)\<close> for an int.\<close>

definition str_of_int :: "pyrt \<Rightarrow> int \<Rightarrow> error + ustr" where
  "str_of_int rt n =
     (if within_limit rt (length (dec (nat \<bar>n\<bar>))) then Inr (str_int n) else Inl ValueError)"

text \<open>
  \<open>repr\<close> of a value from \<open>json\<close>; a list or a dict prints its elements with \<open>repr\<close>.
\<close>

fun py_repr :: "pyrt \<Rightarrow> json \<Rightarrow> error + ustr"
  and py_repr_list :: "pyrt \<Rightarrow> json list \<Rightarrow> error + ustr list"
  and py_repr_items :: "pyrt \<Rightarrow> (ustr \<times> json) list \<Rightarrow> error + ustr list" where
  "py_repr rt JNull = Inr (asc ''None'')"
| "py_repr rt (JBool b) = Inr (if b then asc ''True'' else asc ''False'')"
| "py_repr rt (JInt n) = str_of_int rt n"
| "py_repr rt (JFloat f) = Inr (float_repr rt f)"
| "py_repr rt (JStr s) = Inr (str_repr rt s)"
| "py_repr rt (JArr xs) =
     ebind (py_repr_list rt xs) (\<lambda>rs. Inr (asc ''['' @ join (asc '', '') rs @ asc '']''))"
| "py_repr rt (JObj kvs) =
     ebind (py_repr_items rt kvs) (\<lambda>rs. Inr (asc ''{'' @ join (asc '', '') rs @ asc ''}''))"
| "py_repr_list rt [] = Inr []"
| "py_repr_list rt (x # xs) =
     ebind (py_repr rt x) (\<lambda>r. ebind (py_repr_list rt xs) (\<lambda>rs. Inr (r # rs)))"
| "py_repr_items rt [] = Inr []"
| "py_repr_items rt ((k, v) # kvs) =
     ebind (py_repr rt v) (\<lambda>r.
       ebind (py_repr_items rt kvs) (\<lambda>rs. Inr ((str_repr rt k @ asc '': '' @ r) # rs)))"

text \<open>\<open>f"{x}"\<close> is \<open>format(x, "")\<close>, which is \<open>str(x)\<close> for these types.\<close>

fun py_str :: "pyrt \<Rightarrow> json \<Rightarrow> error + ustr" where
  "py_str rt (JStr s) = Inr s"
| "py_str rt v = py_repr rt v"

subsection \<open>The format spec \<open>+.0f\<close>\<close>

text \<open>
  The nearest integer to \<open>m * 2^e\<close>, ties to the even one: \<open>.0f\<close> rounds the exact
  value of the double this way.
\<close>

definition round_half_even :: "nat \<Rightarrow> int \<Rightarrow> nat" where
  "round_half_even m e =
     (if 0 \<le> e then m * 2 ^ nat e
      else let k = 2 ^ nat (- e); q = m div k; r = m mod k
           in if k < 2 * r \<or> (2 * r = k \<and> odd q) then q + 1 else q)"

fun bit_length :: "nat \<Rightarrow> nat" where
  "bit_length n = (if n = 0 then 0 else Suc (bit_length (n div 2)))"

declare bit_length.simps [simp del]

text \<open>
  \<open>float(n)\<close> for an int, as \<open>int.__format__\<close> calls it for a float format: the
  magnitude of the nearest double (53 significant bits, ties to even), or OverflowError
  from \<open>2^1024\<close> on.
\<close>

definition int_to_double :: "int \<Rightarrow> error + nat" where
  "int_to_double n =
     (let a = nat \<bar>n\<bar>; b = bit_length a
      in if b \<le> 53 then Inr a
         else let sh = b - 53; v = round_half_even a (- int sh) * 2 ^ sh
              in if 2 ^ 1024 \<le> v then Inl OverflowError else Inr v)"

definition sign_plus :: "bool \<Rightarrow> ustr" where
  "sign_plus neg = (if neg then asc ''-'' else asc ''+'')"

fun format_plus_0f :: "json \<Rightarrow> error + ustr" where
  "format_plus_0f (JInt n) = ebind (int_to_double n) (\<lambda>v. Inr (sign_plus (n < 0) @ dec v))"
| "format_plus_0f (JBool b) = Inr (if b then asc ''+1'' else asc ''+0'')"
| "format_plus_0f (JFloat (Finite neg m e)) = Inr (sign_plus neg @ dec (round_half_even m e))"
| "format_plus_0f (JFloat (Inf neg)) = Inr (sign_plus neg @ asc ''inf'')"
| "format_plus_0f (JFloat NaN) = Inr (asc ''+nan'')"
| "format_plus_0f JNull = Inl TypeError"
| "format_plus_0f (JStr s) = Inl ValueError"
| "format_plus_0f (JArr xs) = Inl TypeError"
| "format_plus_0f (JObj kvs) = Inl TypeError"

section \<open>Forecast formatter\<close>

text \<open>The placeholder, an em dash (U+2014).\<close>

definition dash :: ustr where
  "dash = [8212]"

definition nl :: ustr where
  "nl = [10]"

text \<open>
  \<^verbatim>\<open>
  def _format_temp(val):
      try:
          return f"{val:+.0f}\<degree>C"
      except Exception:
          return DASH
  \<close>
  The unit is U+00B0 followed by \<open>C\<close>.
\<close>

definition format_temp :: "json \<Rightarrow> ustr" where
  "format_temp val = (case format_plus_0f val of Inr s \<Rightarrow> s @ [176, 67] | Inl e \<Rightarrow> dash)"

subsection \<open>The weather code table\<close>

text \<open>
  The descriptions, in the order of \<open>WEATHER_CODES\<close>: Yasno, Preimushchestvenno yasno,
  Peremennaya oblachnost, Pasmurno, Tuman, Izmoroz, Moros lyogkaya, Moros, Moros
  intensivnaya, Dozhd lyogkiy, Dozhd, Dozhd silnyy, Sneg lyogkiy, Sneg, Sneg silnyy, Livni
  lyogkie, Livni, Livni silnye, Groza, Groza s gradom, Groza s silnym gradom.
\<close>

definition WEATHER_CODES :: "(int \<times> ustr) list" where
  "WEATHER_CODES =
    [(0, [1071, 1089, 1085, 1086]),
     (1, [1055, 1088, 1077, 1080, 1084, 1091, 1097, 1077, 1089, 1090, 1074, 1077, 1085, 1085,
          1086, 32, 1103, 1089, 1085, 1086]),
     (2, [1055, 1077, 1088, 1077, 1084, 1077, 1085, 1085, 1072, 1103, 32, 1086, 1073, 1083,
          1072, 1095, 1085, 1086, 1089, 1090, 1100]),
     (3, [1055, 1072, 1089, 1084, 1091, 1088, 1085, 1086]),
     (45, [1058, 1091, 1084, 1072, 1085]),
     (48, [1048, 1079, 1084, 1086, 1088, 1086, 1079, 1100]),
     (51, [1052, 1086, 1088, 1086, 1089, 1100, 32, 1083, 1105, 1075, 1082, 1072, 1103]),
     (53, [1052, 1086, 1088, 1086, 1089, 1100]),
     (55, [1052, 1086, 1088, 1086, 1089, 1100, 32, 1080, 1085, 1090, 1077, 1085, 1089, 1080,
           1074, 1085, 1072, 1103]),
     (61, [1044, 1086, 1078, 1076, 1100, 32, 1083, 1105, 1075, 1082, 1080, 1081]),
     (63, [1044, 1086, 1078, 1076, 1100]),
     (65, [1044, 1086, 1078, 1076, 1100, 32, 1089, 1080, 1083, 1100, 1085, 1099, 1081]),
     (71, [1057, 1085, 1077, 1075, 32, 1083, 1105, 1075, 1082, 1080, 1081]),
     (73, [1057, 1085, 1077, 1075]),
     (75, [1057, 1085, 1077, 1075, 32, 1089, 1080, 1083, 1100, 1085, 1099, 1081]),
     (80, [1051, 1080, 1074, 1085, 1080, 32, 1083, 1105, 1075, 1082, 1080, 1077]),
     (81, [1051, 1080, 1074, 1085, 1080]),
     (82, [1051, 1080, 1074, 1085, 1080, 32, 1089, 1080, 1083, 1100, 1085, 1099, 1077]),
     (95, [1043, 1088, 1086, 1079, 1072]),
     (96, [1043, 1088, 1086, 1079, 1072, 32, 1089, 32, 1075, 1088, 1072, 1076, 1086, 1084]),
     (99, [1043, 1088, 1086, 1079, 1072, 32, 1089, 32, 1089, 1080, 1083, 1100, 1085, 1099,
           1084, 32, 1075, 1088, 1072, 1076, 1086, 1084])]"

text \<open>
  The integer a float is equal to, if any: \<open>3.0 == 3\<close> and both hash alike, so a float
  finds the entry of the int it equals.
\<close>

fun float_int_value :: "pyfloat \<Rightarrow> int option" where
  "float_int_value (Finite neg m e) =
     (if 0 \<le> e then Some ((if neg then - 1 else 1) * int (m * 2 ^ nat e))
      else if m mod 2 ^ nat (- e) = 0
           then Some ((if neg then - 1 else 1) * int (m div 2 ^ nat (- e)))
           else None)"
| "float_int_value (Inf neg) = None"
| "float_int_value NaN = None"

text \<open>
  The key of \<open>WEATHER_CODES.get(key, DASH)\<close> is hashed first: a list or a dict is
  unhashable, a TypeError. \<open>True\<close> and \<open>False\<close> are the ints 1 and 0; \<open>None\<close> and a
  string equal no int.
\<close>

fun int_key :: "json \<Rightarrow> error + int option" where
  "int_key (JInt n) = Inr (Some n)"
| "int_key (JBool b) = Inr (Some (if b then 1 else 0))"
| "int_key (JFloat f) = Inr (float_int_value f)"
| "int_key JNull = Inr None"
| "int_key (JStr s) = Inr None"
| "int_key (JArr xs) = Inl TypeError"
| "int_key (JObj kvs) = Inl TypeError"

definition weather_codes_get :: "json \<Rightarrow> error + ustr" where
  "weather_codes_get key =
     ebind (int_key key) (\<lambda>k.
       case k of
         None \<Rightarrow> Inr dash
       | Some n \<Rightarrow> Inr (case map_of WEATHER_CODES n of Some d \<Rightarrow> d | None \<Rightarrow> dash))"

subsection \<open>Reformatting the date\<close>

text \<open>
  \<open>datetime.strptime(s, "%Y-%m-%d")\<close> matches the regular expression
  \<^verbatim>\<open>(?P<Y>\d\d\d\d)-(?P<m>1[0-2]|0[1-9]|[1-9])-(?P<d>3[0-1]|[1-2]\d|0[1-9]|[1-9]| [1-9])\<close>
  at the start of \<open>s\<close>, alternatives tried in this order, and then wants the match to
  end where \<open>s\<close> ends. \<open>\d\<close> is any decimal digit of Unicode; the bracketed classes are
  ASCII.
\<close>

definition digit_val :: "pyrt \<Rightarrow> nat \<Rightarrow> nat option" where
  "digit_val rt c =
     (if 48 \<le> c \<and> c \<le> 57 then Some (c - 48)
      else if c < 128 then None
      else case nd_value rt c of Some d \<Rightarrow> if d \<le> 9 then Some d else None | None \<Rightarrow> None)"

definition month_alts :: "ustr \<Rightarrow> (nat \<times> ustr) list" where
  "month_alts s =
     (case s of a # b # r \<Rightarrow> if a = 49 \<and> 48 \<le> b \<and> b \<le> 50 then [(10 + (b - 48), r)] else []
      | _ \<Rightarrow> [])
   @ (case s of a # b # r \<Rightarrow> if a = 48 \<and> 49 \<le> b \<and> b \<le> 57 then [(b - 48, r)] else []
      | _ \<Rightarrow> [])
   @ (case s of a # r \<Rightarrow> if 49 \<le> a \<and> a \<le> 57 then [(a - 48, r)] else []
      | _ \<Rightarrow> [])"

definition day_alts :: "pyrt \<Rightarrow> ustr \<Rightarrow> (nat \<times> ustr) list" where
  "day_alts rt s =
     (case s of a # b # r \<Rightarrow> if a = 51 \<and> 48 \<le> b \<and> b \<le> 49 then [(30 + (b - 48), r)] else []
      | _ \<Rightarrow> [])
   @ (case s of a # b # r \<Rightarrow>
        if 49 \<le> a \<and> a \<le> 50
        then (case digit_val rt b of Some d \<Rightarrow> [(10 * (a - 48) + d, r)] | None \<Rightarrow> [])
        else []
      | _ \<Rightarrow> [])
   @ (case s of a # b # r \<Rightarrow> if a = 48 \<and> 49 \<le> b \<and> b \<le> 57 then [(b - 48, r)] else []
      | _ \<Rightarrow> [])
   @ (case s of a # r \<Rightarrow> if 49 \<le> a \<and> a \<le> 57 then [(a - 48, r)] else []
      | _ \<Rightarrow> [])
   @ (case s of a # b # r \<Rightarrow> if a = 32 \<and> 49 \<le> b \<and> b \<le> 57 then [(b - 48, r)] else []
      | _ \<Rightarrow> [])"

text \<open>Every way the part after the year can match, in backtracking order.\<close>

definition month_day_matches :: "pyrt \<Rightarrow> ustr \<Rightarrow> (nat \<times> nat \<times> ustr) list" where
  "month_day_matches rt s =
     concat (map (\<lambda>(m, r).
        case r of
          h # r' \<Rightarrow> if h = 45 then map (\<lambda>(d, r''). (m, d, r'')) (day_alts rt r') else []
        | [] \<Rightarrow> []) (month_alts s))"

text \<open>The first match: year, month, day and the text left after it.\<close>

definition regex_match_ymd :: "pyrt \<Rightarrow> ustr \<Rightarrow> (nat \<times> nat \<times> nat \<times> ustr) option" where
  "regex_match_ymd rt s =
     (case s of
        y1 # y2 # y3 # y4 # h # r \<Rightarrow>
          (case (digit_val rt y1, digit_val rt y2, digit_val rt y3, digit_val rt y4) of
             (Some a, Some b, Some c, Some d) \<Rightarrow>
               if h = 45 then
                 (case month_day_matches rt r of
                    (m, dd, rest) # _ \<Rightarrow> Some (1000 * a + 100 * b + 10 * c + d, m, dd, rest)
                  | [] \<Rightarrow> None)
               else None
           | _ \<Rightarrow> None)
      | _ \<Rightarrow> None)"

definition is_leap :: "nat \<Rightarrow> bool" where
  "is_leap y = (y mod 4 = 0 \<and> (y mod 100 \<noteq> 0 \<or> y mod 400 = 0))"

definition days_in_month :: "nat \<Rightarrow> nat \<Rightarrow> nat" where
  "days_in_month y m =
     (if m = 2 then (if is_leap y then 29 else 28)
      else if m = 4 \<or> m = 6 \<or> m = 9 \<or> m = 11 then 30 else 31)"

text \<open>
  A value that is not a string is a TypeError; no match, text left over, the year 0 or a
  day the month does not have is a ValueError.
\<close>

definition strptime_ymd :: "pyrt \<Rightarrow> json \<Rightarrow> error + (nat \<times> nat \<times> nat)" where
  "strptime_ymd rt v =
     (case v of
        JStr s \<Rightarrow>
          (case regex_match_ymd rt s of
             None \<Rightarrow> Inl ValueError
           | Some (y, m, d, rest) \<Rightarrow>
               if rest \<noteq> [] then Inl ValueError
               else if y < 1 \<or> days_in_month y m < d then Inl ValueError
               else Inr (y, m, d))
      | _ \<Rightarrow> Inl TypeError)"

definition two_digits :: "nat \<Rightarrow> ustr" where
  "two_digits n = [48 + n div 10, 48 + n mod 10]"

text \<open>\<open>.strftime("%d.%m.%Y")\<close>\<close>

definition strftime_dmy :: "pyrt \<Rightarrow> nat \<times> nat \<times> nat \<Rightarrow> ustr" where
  "strftime_dmy rt ymd =
     (case ymd of (y, m, d) \<Rightarrow>
        two_digits d @ asc ''.'' @ two_digits m @ asc ''.'' @
        (if 1000 \<le> y then dec y else small_year rt y))"

subsection \<open>One day's block\<close>

text \<open>Net dannykh. ("No data.")\<close>

definition no_data :: ustr where
  "no_data = [1053, 1077, 1090, 32, 1076, 1072, 1085, 1085, 1099, 1093, 46]"

text \<open>
  The pattern \<open>f(xs[idx]) if idx < len(xs) else DASH\<close> of the five value fields.
\<close>

definition if_in_range :: "json \<Rightarrow> int \<Rightarrow> (json \<Rightarrow> error + ustr) \<Rightarrow> error + ustr" where
  "if_in_range xs idx f =
     ebind (py_len xs) (\<lambda>n.
       if idx < int n then ebind (py_getitem xs idx) f else Inr dash)"

text \<open>
  \<^verbatim>\<open>
  try:
      date_str = datetime.strptime(dates[idx], "%Y-%m-%d").strftime("%d.%m.%Y")
  except Exception:
      date_str = dates[idx]
  \<close>
  The handler reads \<open>dates[idx]\<close> again, outside any \<open>try\<close>.
\<close>

definition date_str_of :: "pyrt \<Rightarrow> json \<Rightarrow> int \<Rightarrow> error + json" where
  "date_str_of rt dates idx =
     (case ebind (py_getitem dates idx) (\<lambda>v.
             ebind (strptime_ymd rt v) (\<lambda>ymd. Inr (strftime_dmy rt ymd))) of
        Inr s \<Rightarrow> Inr (JStr s)
      | Inl e \<Rightarrow> py_getitem dates idx)"

text \<open>
  \<open>_build_day_block_from_daily(daily, idx, label)\<close>. The labels of the lines are
  "Maks: ", ", min: ", "Osadki: ", "Veter: " and the units " mm" and " m/s" in Cyrillic;
  the label and the date are joined by an em dash between spaces. The five values are
  formatted in the order of the source; the date is turned into text last, in the
  returned f-string.
\<close>

definition build_day_block_from_daily :: "pyrt \<Rightarrow> json \<Rightarrow> int \<Rightarrow> ustr \<Rightarrow> error + ustr" where
  "build_day_block_from_daily rt daily idx label =
     (case daily of
        JObj d \<Rightarrow>
          (let dates = dict_get d (asc ''time'') (JArr []);
               tmax = dict_get d (asc ''temperature_2m_max'') (JArr []);
               tmin = dict_get d (asc ''temperature_2m_min'') (JArr []);
               precip = dict_get d (asc ''precipitation_sum'') (JArr []);
               wcode = dict_get d (asc ''weathercode'') (JArr []);
               wind = dict_get d (asc ''windspeed_10m_max'') (JArr [])
           in ebind (py_len dates) (\<lambda>n.
                if int n \<le> idx then Inr (asc ''*'' @ label @ asc ''*'' @ nl @ no_data @ nl)
                else
                  ebind (date_str_of rt dates idx) (\<lambda>date_str.
                  ebind (if_in_range wcode idx weather_codes_get) (\<lambda>desc.
                  ebind (if_in_range tmax idx (\<lambda>v. Inr (format_temp v))) (\<lambda>tmax_val.
                  ebind (if_in_range tmin idx (\<lambda>v. Inr (format_temp v))) (\<lambda>tmin_val.
                  ebind (if_in_range precip idx
                           (\<lambda>v. ebind (py_str rt v) (\<lambda>s. Inr (s @ [32, 1084, 1084]))))
                    (\<lambda>precip_val.
                  ebind (if_in_range wind idx
                           (\<lambda>v. ebind (py_str rt v) (\<lambda>s. Inr (s @ [32, 1084, 47, 1089]))))
                    (\<lambda>wind_val.
                  ebind (py_str rt date_str) (\<lambda>date_text.
                    Inr (asc ''*'' @ label @ [32, 8212, 32] @ date_text @ asc ''*'' @ nl
                         @ desc @ nl
                         @ [1052, 1072, 1082, 1089, 58, 32] @ tmax_val
                         @ [44, 32, 1084, 1080, 1085, 58, 32] @ tmin_val @ nl
                         @ [1054, 1089, 1072, 1076, 1082, 1080, 58, 32] @ precip_val @ nl
                         @ [1042, 1077, 1090, 1077, 1088, 58, 32] @ wind_val @ nl))))))))))
      | _ \<Rightarrow> Inl AttributeError)"

text \<open>Segodnya ("Today") and Zavtra ("Tomorrow").\<close>

definition today_label :: ustr where
  "today_label = [1057, 1077, 1075, 1086, 1076, 1085, 1103]"

definition tomorrow_label :: ustr where
  "tomorrow_label = [1047, 1072, 1074, 1090, 1088, 1072]"

text \<open>
  \<open>build_full_forecast_message(api_data)\<close>; the footer is "Dannye: Open-Meteo.com"
  ("Data: ...") after two line feeds.
\<close>

definition build_full_forecast_message :: "pyrt \<Rightarrow> json \<Rightarrow> error + ustr" where
  "build_full_forecast_message rt api_data =
     (case api_data of
        JObj a \<Rightarrow>
          (let daily = dict_get a (asc ''daily'') (JObj [])
           in ebind (build_day_block_from_daily rt daily 0 today_label) (\<lambda>today.
              ebind (build_day_block_from_daily rt daily 1 tomorrow_label) (\<lambda>tomorrow.
                Inr (today @ nl @ tomorrow @ nl @ nl
                     @ [1044, 1072, 1085, 1085, 1099, 1077, 58, 32] @ asc ''Open-Meteo.com''))))
      | _ \<Rightarrow> Inl AttributeError)"

section \<open>Weather client\<close>

text \<open>
  What the one HTTP request can come to: \<open>requests.get\<close> raises on a network failure
  or after the 10 second timeout, or returns a response with a status and a body that is
  JSON text or not.
\<close>

datatype http_body = NotJson | Json json

datatype http_outcome = NetworkFailure | TimedOut | Response nat http_body

text \<open>
  \<^verbatim>\<open>
  r = requests.get(url, params=params, timeout=10)
  r.raise_for_status()
  return r.json()
  \<close>
  \<open>raise_for_status\<close> raises for a status from 400 to 599 and for no other.
\<close>

definition get_weather :: "http_outcome \<Rightarrow> error + json" where
  "get_weather net =
     (case net of
        NetworkFailure \<Rightarrow> Inl ConnectionError
      | TimedOut \<Rightarrow> Inl Timeout
      | Response status body \<Rightarrow>
          if 400 \<le> status \<and> status < 600 then Inl HTTPError
          else (case body of NotJson \<Rightarrow> Inl JSONDecodeError | Json j \<Rightarrow> Inr j))"

section \<open>Forecast store\<close>

text \<open>
  The file \<open>last_forecasts.json\<close>: absent, holding text that \<open>json.load\<close> rejects, or
  holding a document. \<open>readable\<close> says whether \<open>open(STORE_FILE, "r")\<close> succeeds on an
  existing file. \<open>wfault\<close> is what the environment does to a write: nothing,
  \<open>open(STORE_FILE, "w")\<close> fails (the file stays as it is), or the write fails after the
  file was opened, and so truncated. \<open>logs\<close> are the records of \<open>logger.exception\<close>.
\<close>

datatype file_content = NoFile | Garbage | Doc json

datatype wfault = NoFault | OpenFault | WriteFault

datatype log_event = LoadFailed | SaveFailed | HandlerFailed

record world =
  content :: file_content
  readable :: bool
  wfault :: wfault
  logs :: "log_event list"

text \<open>
  What \<open>json.dump\<close> can write to the file. The file is UTF-8 and \<open>ensure_ascii\<close> is
  off: a string with a surrogate code point (U+D800 to U+DFFF, which \<open>json\<close> reads from
  an escape such as \<^verbatim>\<open>"\ud800"\<close>) cannot be encoded (UnicodeEncodeError, a
  ValueError). An int is written through its decimal string, within the digit limit only.
\<close>

definition no_surrogate :: "ustr \<Rightarrow> bool" where
  "no_surrogate s = list_all (\<lambda>c. c < 55296 \<or> 57343 < c) s"

fun dumpable :: "pyrt \<Rightarrow> json \<Rightarrow> bool"
  and dumpable_list :: "pyrt \<Rightarrow> json list \<Rightarrow> bool"
  and dumpable_items :: "pyrt \<Rightarrow> (ustr \<times> json) list \<Rightarrow> bool" where
  "dumpable rt JNull = True"
| "dumpable rt (JBool b) = True"
| "dumpable rt (JInt n) = within_limit rt (length (dec (nat \<bar>n\<bar>)))"
| "dumpable rt (JFloat f) = True"
| "dumpable rt (JStr s) = no_surrogate s"
| "dumpable rt (JArr xs) = dumpable_list rt xs"
| "dumpable rt (JObj kvs) = dumpable_items rt kvs"
| "dumpable_list rt [] = True"
| "dumpable_list rt (x # xs) = (dumpable rt x \<and> dumpable_list rt xs)"
| "dumpable_items rt [] = True"
| "dumpable_items rt ((k, v) # kvs) =
     (no_surrogate k \<and> dumpable rt v \<and> dumpable_items rt kvs)"

text \<open>
  \<^verbatim>\<open>
  with open(STORE_FILE, "r", encoding="utf-8") as f:
      return json.load(f)
  \<close>
\<close>

definition read_store :: "world \<Rightarrow> error + json" where
  "read_store w =
     (if \<not> readable w then Inl OSError
      else case content w of
             NoFile \<Rightarrow> Inl OSError
           | Garbage \<Rightarrow> Inl JSONDecodeError
           | Doc j \<Rightarrow> Inr j)"

text \<open>\<open>_load_store()\<close>\<close>

definition load_store :: "world \<Rightarrow> json \<times> world" where
  "load_store w =
     (if content w = NoFile then (JObj [], w)
      else case read_store w of
             Inr j \<Rightarrow> (j, w)
           | Inl e \<Rightarrow> (JObj [], w\<lparr>logs := logs w @ [LoadFailed]\<rparr>))"

text \<open>
  \<^verbatim>\<open>
  with open(STORE_FILE, "w", encoding="utf-8") as f:
      json.dump(store, f, ensure_ascii=False, indent=2)
  \<close>
  A write that fails after the file was opened leaves a truncated file, which is never a
  complete JSON document.
\<close>

definition write_store :: "pyrt \<Rightarrow> json \<Rightarrow> world \<Rightarrow> error option \<times> world" where
  "write_store rt store w =
     (if wfault w = OpenFault then (Some OSError, w)
      else if wfault w = WriteFault then (Some OSError, w\<lparr>content := Garbage\<rparr>)
      else if \<not> dumpable rt store then (Some ValueError, w\<lparr>content := Garbage\<rparr>)
      else (None, w\<lparr>content := Doc store\<rparr>))"

text \<open>\<open>_save_store(store)\<close>: the exception is logged and dropped.\<close>

definition save_store :: "pyrt \<Rightarrow> json \<Rightarrow> world \<Rightarrow> world" where
  "save_store rt store w =
     (case write_store rt store w of
        (None, w') \<Rightarrow> w'
      | (Some e, w') \<Rightarrow> w'\<lparr>logs := logs w' @ [SaveFailed]\<rparr>)"

text \<open>
  The entry of a chat. \<open>now\<close> is \<open>datetime.utcnow().isoformat()\<close> at the call.
\<close>

definition entry :: "ustr \<Rightarrow> json \<Rightarrow> ustr \<Rightarrow> json" where
  "entry now daily txt =
     JObj [(asc ''ts'', JStr (now @ asc ''Z'')), (asc ''daily'', daily), (asc ''text'', JStr txt)]"

text \<open>
  \<^verbatim>\<open>
  def save_last_forecast(chat_id: int, api_data: dict):
      with _store_lock:
          store = _load_store()
          daily = api_data.get("daily", {})
          text = build_full_forecast_message(api_data)
          store[str(chat_id)] = {"ts": ..., "daily": daily, "text": text}
          _save_store(store)
  \<close>
  Assigning to a key of a dict keeps the place of a key that is there and appends a new
  one, as \<open>AList.update\<close> does; what \<open>json.load\<close> returned may also be no dict. The
  assignment evaluates the new entry, then \<open>str(chat_id)\<close>, then stores.
\<close>

definition save_last_forecast ::
  "pyrt \<Rightarrow> ustr \<Rightarrow> int \<Rightarrow> json \<Rightarrow> world \<Rightarrow> (error + unit) \<times> world" where
  "save_last_forecast rt now chat_id api_data w =
     (case load_store w of (store, w1) \<Rightarrow>
        (case api_data of
           JObj a \<Rightarrow>
             (let daily = dict_get a (asc ''daily'') (JObj [])
              in case build_full_forecast_message rt api_data of
                   Inl e \<Rightarrow> (Inl e, w1)
                 | Inr txt \<Rightarrow>
                     (case str_of_int rt chat_id of
                        Inl e \<Rightarrow> (Inl e, w1)
                      | Inr key \<Rightarrow>
                          (case store of
                             JObj st \<Rightarrow>
                               (Inr (),
                                save_store rt
                                  (JObj (AList.update key (entry now daily txt) st)) w1)
                           | _ \<Rightarrow> (Inl TypeError, w1))))
         | _ \<Rightarrow> (Inl AttributeError, w1)))"

text \<open>
  \<open>get_last_forecast(chat_id)\<close>: \<open>store.get(str(chat_id))\<close>, which is \<open>None\<close> for a
  missing key.
\<close>

definition get_last_forecast :: "pyrt \<Rightarrow> int \<Rightarrow> world \<Rightarrow> (error + json) \<times> world" where
  "get_last_forecast rt chat_id w =
     (case load_store w of (store, w1) \<Rightarrow>
        (case store of
           JObj st \<Rightarrow>
             (case str_of_int rt chat_id of
                Inl e \<Rightarrow> (Inl e, w1)
              | Inr key \<Rightarrow> (Inr (dict_get st key JNull), w1))
         | _ \<Rightarrow> (Inl AttributeError, w1)))"

section \<open>Conversation controller\<close>

text \<open>
  What a handler does to the chat, in order. The transport is outside the program: its
  calls are taken to succeed.
\<close>

datatype markup = MainKb | InlineKb | NoMarkup

datatype parse_mode = Markdown | Plain

datatype effect = ChatAction | AnswerCallback | Send ustr parse_mode markup




definition bad_button :: ustr where
  "bad_button =
     [1053, 1077, 1082, 1086, 1088, 1088, 1077, 1082, 1090, 1085, 1072, 1103, 32, 1082, 1085,
      1086, 1087, 1082, 1072, 46]"

definition day_failed :: ustr where
  "day_failed =
     [1053, 1077, 32, 1091, 1076, 1072, 1083, 1086, 1089, 1100, 32, 1087, 1086, 1083, 1091,
      1095, 1080, 1090, 1100, 32, 1087, 1088, 1086, 1075, 1085, 1086, 1079, 46]"


subsection \<open>The day buttons\<close>

text \<open>
  \<open>int(s)\<close> for a string: white space around, an optional sign, then decimal digits with
  single underscores between them, and no more digits than the limit. The ASCII white
  space of \<open>int\<close> is tab to carriage return and the space. Every failure is a ValueError.
\<close>

definition is_space :: "pyrt \<Rightarrow> nat \<Rightarrow> bool" where
  "is_space rt c = (if c < 128 then (9 \<le> c \<and> c \<le> 13) \<or> c = 32 else uni_space rt c)"

fun parse_digits :: "pyrt \<Rightarrow> ustr \<Rightarrow> nat \<Rightarrow> nat option" where
  "parse_digits rt [] acc = Some acc"
| "parse_digits rt (c # cs) acc =
     (if c = 95 then
        (case cs of
           [] \<Rightarrow> None
         | d # ds \<Rightarrow>
             (case digit_val rt d of
                None \<Rightarrow> None
              | Some v \<Rightarrow> parse_digits rt ds (10 * acc + v)))
      else case digit_val rt c of
             None \<Rightarrow> None
           | Some v \<Rightarrow> parse_digits rt cs (10 * acc + v))"

definition py_int :: "pyrt \<Rightarrow> ustr \<Rightarrow> error + int" where
  "py_int rt s =
     (let t = rev (dropWhile (is_space rt) (rev (dropWhile (is_space rt) s)));
          neg = (case t of c # cs \<Rightarrow> c = 45 | [] \<Rightarrow> False);
          body = (case t of c # cs \<Rightarrow> if c = 45 \<or> c = 43 then cs else t | [] \<Rightarrow> [])
      in case body of
           [] \<Rightarrow> Inl ValueError
         | d # ds \<Rightarrow>
             (case digit_val rt d of
                None \<Rightarrow> Inl ValueError
              | Some v \<Rightarrow>
                  (case parse_digits rt ds v of
                     None \<Rightarrow> Inl ValueError
                   | Some n \<Rightarrow>
                       if within_limit rt (length (filter (\<lambda>c. c \<noteq> 95) body))
                       then Inr (if neg then - int n else int n)
                       else Inl ValueError)))"

text \<open>Truth of a value in \<open>if last:\<close>.\<close>

fun py_truthy :: "json \<Rightarrow> bool" where
  "py_truthy JNull = False"
| "py_truthy (JBool b) = b"
| "py_truthy (JInt n) = (n \<noteq> 0)"
| "py_truthy (JFloat (Finite neg m e)) = (m \<noteq> 0)"
| "py_truthy (JFloat (Inf neg)) = True"
| "py_truthy (JFloat NaN) = True"
| "py_truthy (JStr s) = (s \<noteq> [])"
| "py_truthy (JArr xs) = (xs \<noteq> [])"
| "py_truthy (JObj kvs) = (kvs \<noteq> [])"

text \<open>The filter of the handler: \<open>c.data and c.data.startswith("day:")\<close>.\<close>

definition day_filter :: "ustr \<Rightarrow> bool" where
  "day_filter data = (data \<noteq> [] \<and> prefix (asc ''day:'') data)"

text \<open>
  \<open>"Segodnya" if idx == 0 else "Zavtra"\<close>
\<close>

definition day_label :: "int \<Rightarrow> ustr" where
  "day_label idx = (if idx = 0 then today_label else tomorrow_label)"

text \<open>
  \<^verbatim>\<open>
  async def cb_day_callback(callback_query):
      await bot.answer_callback_query(callback_query.id)
      chat_id = callback_query.message.chat.id
      _, idx_str = callback_query.data.split(":", 1)
      try:
          idx = int(idx_str)
      except Exception:
          await bot.send_message(chat_id, BAD_BUTTON)
          return
      last = get_last_forecast(chat_id)
      if last:
          daily = last.get("daily", {})
          block = _build_day_block_from_daily(daily, idx, LABEL)
          await bot.send_message(chat_id, block, parse_mode="Markdown", reply_markup=main_kb)
      else:
          try:
              api_data = get_weather()
              save_last_forecast(chat_id, api_data)
              daily = api_data.get("daily", {})
              block = _build_day_block_from_daily(daily, idx, LABEL)
              await bot.send_message(chat_id, block, parse_mode="Markdown", reply_markup=main_kb)
          except Exception:
              logger.exception(...)
              await bot.send_message(chat_id, DAY_FAILED, reply_markup=main_kb)
  \<close>
  The result is the exception that leaves the handler, if any, what was sent, and the
  world. The cached branch has no \<open>try\<close>.
\<close>

definition cb_day_callback ::
  "pyrt \<Rightarrow> ustr \<Rightarrow> http_outcome \<Rightarrow> int \<Rightarrow> ustr \<Rightarrow> world
     \<Rightarrow> error option \<times> effect list \<times> world" where
  "cb_day_callback rt now net chat_id data w =
     (if \<not> list_ex (\<lambda>c. c = 58) data then (Some ValueError, [AnswerCallback], w)
      else
        let idx_str = drop 1 (dropWhile (\<lambda>c. c \<noteq> 58) data)
        in case py_int rt idx_str of
             Inl e \<Rightarrow> (None, [AnswerCallback, Send bad_button Plain NoMarkup], w)
           | Inr idx \<Rightarrow>
               (case get_last_forecast rt chat_id w of
                  (Inl e, w1) \<Rightarrow> (Some e, [AnswerCallback], w1)
                | (Inr found, w1) \<Rightarrow>
                    if py_truthy found then
                      (case found of
                         JObj l \<Rightarrow>
                           (case build_day_block_from_daily rt
                                   (dict_get l (asc ''daily'') (JObj [])) idx (day_label idx) of
                              Inl e \<Rightarrow> (Some e, [AnswerCallback], w1)
                            | Inr block \<Rightarrow>
                                (None, [AnswerCallback, Send block Markdown MainKb], w1))
                       | _ \<Rightarrow> (Some AttributeError, [AnswerCallback], w1))
                    else
                      (case get_weather net of
                         Inl e \<Rightarrow>
                           (None, [AnswerCallback, Send day_failed Plain MainKb],
                            w1\<lparr>logs := logs w1 @ [HandlerFailed]\<rparr>)
                       | Inr api_data \<Rightarrow>
                           (case save_last_forecast rt now chat_id api_data w1 of
                              (Inl e, w2) \<Rightarrow>
                                (None, [AnswerCallback, Send day_failed Plain MainKb],
                                 w2\<lparr>logs := logs w2 @ [HandlerFailed]\<rparr>)
                            | (Inr u, w2) \<Rightarrow>
                                (case api_data of
                                   JObj a \<Rightarrow>
                                     (case build_day_block_from_daily rt
                                             (dict_get a (asc ''daily'') (JObj [])) idx
                                             (day_label idx) of
                                        Inl e \<Rightarrow>
                                          (None, [AnswerCallback, Send day_failed Plain MainKb],
                                           w2\<lparr>logs := logs w2 @ [HandlerFailed]\<rparr>)
                                      | Inr block \<Rightarrow>
                                          (None,
                                           [AnswerCallback, Send block Markdown MainKb], w2))
                                 | _ \<Rightarrow>
                                     (None, [AnswerCallback, Send day_failed Plain MainKb],
                                      w2\<lparr>logs := logs w2 @ [HandlerFailed]\<rparr>))))))"

section \<open>Concrete inputs and the specification's words\<close>

text \<open>
  A runtime to evaluate concrete inputs with: no digits or white space beyond ASCII, years
  printed without padding, the digit limit 4300. Its two \<open>repr\<close> functions stand in for
  the interpreter's; no input below reaches them.
\<close>

definition rt0 :: pyrt where
  "rt0 = \<lparr>float_repr = (\<lambda>f. asc ''nan''), str_repr = (\<lambda>s. asc [CHR 0x27] @ s @ asc [CHR 0x27]),
          nd_value = (\<lambda>c. None), uni_space = (\<lambda>c. False), small_year = dec,
          max_str_digits = 4300\<rparr>"

definition w0 :: world where
  "w0 = \<lparr>content = NoFile, readable = True, wfault = NoFault, logs = []\<rparr>"

text \<open>
  The day of the scenario: 2024-03-05, maximum 5.2 (the double nearest to it, which is
  \<open>5854679515581645 * 2^-50\<close>), minimum -3, precipitation 0, code 3, wind 12.
\<close>

definition scenario_daily :: json where
  "scenario_daily =
     JObj [(asc ''time'', JArr [JStr (asc ''2024-03-05'')]),
           (asc ''temperature_2m_max'', JArr [JFloat (Finite False 5854679515581645 (- 50))]),
           (asc ''temperature_2m_min'', JArr [JInt (- 3)]),
           (asc ''precipitation_sum'', JArr [JInt 0]),
           (asc ''weathercode'', JArr [JInt 3]),
           (asc ''windspeed_10m_max'', JArr [JInt 12])]"

text \<open>Pasmurno ("Overcast"), the description of code 3.\<close>

definition pasmurno :: ustr where
  "pasmurno = [1055, 1072, 1089, 1084, 1091, 1088, 1085, 1086]"

text \<open>The block the scenario renders under a label.\<close>

definition scenario_block :: "ustr \<Rightarrow> ustr" where
  "scenario_block label =
     asc ''*'' @ label @ [32, 8212, 32] @ asc ''05.03.2024'' @ asc ''*'' @ nl
     @ pasmurno @ nl
     @ [1052, 1072, 1082, 1089, 58, 32] @ (asc ''+5'' @ [176, 67])
     @ [44, 32, 1084, 1080, 1085, 58, 32] @ (asc ''-3'' @ [176, 67]) @ nl
     @ [1054, 1089, 1072, 1076, 1082, 1080, 58, 32] @ (asc ''0'' @ [32, 1084, 1084]) @ nl
     @ [1042, 1077, 1090, 1077, 1088, 58, 32] @ (asc ''12'' @ [32, 1084, 47, 1089]) @ nl"



text \<open>A payload whose day block cannot be formatted: the weather code is a list.\<close>

definition unhashable_daily :: json where
  "unhashable_daily =
     JObj [(asc ''time'', JArr [JStr (asc ''2024-03-05'')]),
           (asc ''weathercode'', JArr [JArr []])]"

text \<open>
  What can be a key of a dict: everything \<open>json\<close> produces but a list and a dict.
\<close>

fun hashable :: "json \<Rightarrow> bool" where
  "hashable (JArr xs) = False"
| "hashable (JObj kvs) = False"
| "hashable v = True"

text \<open>
  What \<open>str\<close> can print: every int inside the value is within the digit limit.
\<close>

fun printable :: "pyrt \<Rightarrow> json \<Rightarrow> bool"
  and printable_list :: "pyrt \<Rightarrow> json list \<Rightarrow> bool"
  and printable_items :: "pyrt \<Rightarrow> (ustr \<times> json) list \<Rightarrow> bool" where
  "printable rt JNull = True"
| "printable rt (JBool b) = True"
| "printable rt (JInt n) = within_limit rt (length (dec (nat \<bar>n\<bar>)))"
| "printable rt (JFloat f) = True"
| "printable rt (JStr s) = True"
| "printable rt (JArr xs) = printable_list rt xs"
| "printable rt (JObj kvs) = printable_items rt kvs"
| "printable_list rt [] = True"
| "printable_list rt (x # xs) = (printable rt x \<and> printable_list rt xs)"
| "printable_items rt [] = True"
| "printable_items rt ((k, v) # kvs) = (printable rt v \<and> printable_items rt kvs)"

text \<open>
  A partial payload: one date, a maximum that is no number, a code that is \<open>null\<close>, and
  the other three fields missing.
\<close>

definition partial_fields :: "(ustr \<times> json) list" where
  "partial_fields =
     [(asc ''time'', JArr [JStr (asc ''2024-03-05'')]),
      (asc ''temperature_2m_max'', JArr [JStr (asc ''n/a'')]),
      (asc ''weathercode'', JArr [JNull])]"

text \<open>A payload with the dates only.\<close>

definition dates_only :: json where
  "dates_only = JObj [(asc ''time'', JArr [JStr (asc ''2024-03-05'')])]"


text \<open>
  The instant of the concrete calls, as \<open>datetime.utcnow().isoformat()\<close> prints it, and
  the payload of the scenario.
\<close>

definition now0 :: ustr where
  "now0 = asc ''2024-03-05T06:00:00''"

definition scenario_api :: json where
  "scenario_api = JObj [(asc ''daily'', scenario_daily)]"

text \<open>
  The message of the scenario: its day under "Segodnya", no data for the second day, the
  footer.
\<close>

definition scenario_text :: ustr where
  "scenario_text =
     scenario_block today_label @ nl
     @ (asc ''*'' @ tomorrow_label @ asc ''*'' @ nl @ no_data @ nl) @ nl @ nl
     @ [1044, 1072, 1085, 1085, 1099, 1077, 58, 32] @ asc ''Open-Meteo.com''"

text \<open>The world after the scenario was saved for chat 7, with no file before.\<close>

definition cached_world :: world where
  "cached_world = snd (save_last_forecast rt0 now0 7 scenario_api w0)"

text \<open>
  A payload whose only date is the string \<open>json\<close> reads from \<^verbatim>\<open>"\ud800"\<close>: one
  surrogate code point.
\<close>

definition surrogate_api :: json where
  "surrogate_api = JObj [(asc ''daily'', JObj [(asc ''time'', JArr [JStr [55296]])])]"

text \<open>
  A world whose file holds no JSON document and where a write fails after the file was
  opened.
\<close>

definition broken_world :: world where
  "broken_world = \<lparr>content = Garbage, readable = True, wfault = WriteFault, logs = []\<rparr>"

text \<open>
  The entries of the document in the file, for the claims that speak of the entries of
  the store: the pairs of the object the file holds, none when it holds no object.
\<close>

definition store_items :: "world \<Rightarrow> (ustr \<times> json) list" where
  "store_items w = (case content w of Doc (JObj st) \<Rightarrow> st | _ \<Rightarrow> [])"
section \<open>Properties\<close>

subsection \<open>Basic facts\<close>

lemma ebind_simps [simp]: "ebind (Inr x) f = f x" "ebind (Inl e) f = Inl e"
  by (simp_all add: ebind_def)

lemma asc_eq_iff [simp]: "asc a = asc b \<longleftrightarrow> a = b"
  unfolding asc_def by (rule inj_map_eq_map) (simp add: inj_on_def)

lemma seq_index_0 [simp]: "seq_index (x # xs) 0 = Inr x"
  by (simp add: seq_index_def)

lemma dec_small: "n < 10 \<Longrightarrow> dec n = [48 + n]"
  by (simp add: dec.simps)

subsection \<open>The no-data block\<close>

text \<open>
  C5. For every daily dict and every label, whenever \<open>idx >= len(daily.time)\<close> the block
  is exactly the label line followed by the fixed "no data" line, and nothing is raised.
\<close>

theorem no_data_beyond_dates:
  assumes "py_len (dict_get d (asc ''time'') (JArr [])) = Inr n" and "int n \<le> idx"
  shows "build_day_block_from_daily rt (JObj d) idx label
         = Inr (asc ''*'' @ label @ asc ''*'' @ nl @ no_data @ nl)"
  using assms by (simp add: build_day_block_from_daily_def Let_def)

theorem no_data_beyond_dates_witness:
  "py_len (dict_get [(asc ''time'', JArr [JStr (asc ''2024-03-05'')])] (asc ''time'') (JArr []))
     = Inr 1
   \<and> int 1 \<le> 1
   \<and> build_day_block_from_daily rt0 (JObj [(asc ''time'', JArr [JStr (asc ''2024-03-05'')])])
        1 tomorrow_label
       = Inr (asc ''*'' @ tomorrow_label @ asc ''*'' @ nl @ no_data @ nl)"
proof -
  have a: "py_len (dict_get [(asc ''time'', JArr [JStr (asc ''2024-03-05'')])] (asc ''time'')
             (JArr [])) = Inr 1"
    by (simp add: dict_get_def)
  have b: "int 1 \<le> 1" by simp
  show ?thesis using a b no_data_beyond_dates [OF a b] by simp
qed

subsection \<open>The scenario of 5 March 2024\<close>

lemma scenario_date:
  "date_str_of rt (JArr [JStr (asc ''2024-03-05'')]) 0 = Inr (JStr (asc ''05.03.2024''))"
  by (simp add: date_str_of_def strptime_ymd_def regex_match_ymd_def asc_def digit_val_def
      month_day_matches_def month_alts_def day_alts_def days_in_month_def is_leap_def
      strftime_dmy_def two_digits_def dec.simps)

lemma scenario_desc: "weather_codes_get (JInt 3) = Inr pasmurno"
  by (simp add: weather_codes_get_def WEATHER_CODES_def pasmurno_def)

lemma scenario_tmax:
  "format_temp (JFloat (Finite False 5854679515581645 (- 50))) = asc ''+5'' @ [176, 67]"
  by (simp add: format_temp_def round_half_even_def Let_def sign_plus_def dec_small asc_def)

lemma bit_length_3: "bit_length 3 = 2"
  by (simp add: bit_length.simps)

lemma scenario_tmin: "format_temp (JInt (- 3)) = asc ''-3'' @ [176, 67]"
  by (simp add: format_temp_def int_to_double_def bit_length_3 sign_plus_def dec_small asc_def)

lemma within_limit_640: "k \<le> 640 \<Longrightarrow> within_limit rt k"
  by (simp add: within_limit_def max_def)

lemma scenario_precip: "str_of_int rt 0 = Inr (asc ''0'')"
  by (simp add: str_of_int_def str_int_def dec_small asc_def within_limit_640)

lemma scenario_wind: "str_of_int rt 12 = Inr (asc ''12'')"
  by (simp add: str_of_int_def str_int_def dec.simps asc_def within_limit_640)

lemma scenario_renders:
  "build_day_block_from_daily rt scenario_daily 0 label = Inr (scenario_block label)"
  by (simp add: build_day_block_from_daily_def scenario_daily_def dict_get_def if_in_range_def
      scenario_date scenario_desc scenario_tmax scenario_tmin scenario_precip scenario_wind
      scenario_block_def)

lemma sublist_mid: "sublist x (p @ x @ s)"
  by (rule sublist_appendI)

lemma sublist_skip: "sublist x ys \<Longrightarrow> sublist x (p @ ys)"
  by (metis append.assoc sublist_def)

text \<open>
  C6. For the day 2024-03-05 with maximum 5.2, minimum -3, precipitation 0, weather code 3
  and wind 12, the block is \<open>scenario_block\<close>, and it contains "05.03.2024", the
  description "Pasmurno", "+5" and "-3" with the degree unit, "0 mm" and "12 m/s" (the
  units in Cyrillic).
\<close>

theorem scenario_block_contains:
  "build_day_block_from_daily rt scenario_daily 0 label = Inr (scenario_block label)
   \<and> sublist (asc ''05.03.2024'') (scenario_block label)
   \<and> sublist pasmurno (scenario_block label)
   \<and> sublist (asc ''+5'' @ [176, 67]) (scenario_block label)
   \<and> sublist (asc ''-3'' @ [176, 67]) (scenario_block label)
   \<and> sublist (asc ''0'' @ [32, 1084, 1084]) (scenario_block label)
   \<and> sublist (asc ''12'' @ [32, 1084, 47, 1089]) (scenario_block label)"
  unfolding scenario_block_def
  by (intro conjI scenario_renders[unfolded scenario_block_def] sublist_mid sublist_skip)

subsection \<open>When the fetch fails\<close>

lemma unhashable_block:
  "build_day_block_from_daily rt unhashable_daily 0 label = Inl TypeError"
  by (simp add: build_day_block_from_daily_def unhashable_daily_def dict_get_def if_in_range_def
      scenario_date weather_codes_get_def)






subsection \<open>Formatting a day never fails, on arrays with a hashable code\<close>

text \<open>
  C1, as stated: for every daily dict, also with non-numeric element values, the block is
  returned without an exception. It does not hold: a weather code that is a list is
  unhashable, and the lookup in the code table raises TypeError.
\<close>

theorem day_block_counterexample:
  "build_day_block_from_daily rt0 unhashable_daily 0 today_label = Inl TypeError"
  by (rule unhashable_block)

lemma seq_index_total:
  "i < int (length xs) \<Longrightarrow> - int (length xs) \<le> i \<Longrightarrow> \<exists>v. seq_index xs i = Inr v"
  by (simp add: seq_index_def)

lemma weather_codes_get_total: "hashable v \<Longrightarrow> \<exists>s. weather_codes_get v = Inr s"
  by (cases v) (auto simp add: weather_codes_get_def split: option.splits)

lemma printable_repr:
  "printable rt v \<Longrightarrow> \<exists>s. py_repr rt v = Inr s"
  "printable_list rt xs \<Longrightarrow> \<exists>ss. py_repr_list rt xs = Inr ss"
  "printable_items rt kvs \<Longrightarrow> \<exists>ss. py_repr_items rt kvs = Inr ss"
  by (induction rt v and rt xs and rt kvs rule: py_repr_py_repr_list_py_repr_items.induct)
    (auto simp add: str_of_int_def)

lemma printable_str: "printable rt v \<Longrightarrow> \<exists>s. py_str rt v = Inr s"
  using printable_repr(1)[of rt v] by (cases v) auto

lemma if_in_range_total:
  assumes "- int (length xs) \<le> idx" "\<forall>v. seq_index xs idx = Inr v \<longrightarrow> (\<exists>s. f v = Inr s)"
  shows "\<exists>s. if_in_range (JArr xs) idx f = Inr s"
proof (cases "idx < int (length xs)")
  case True
  then obtain v where "seq_index xs idx = Inr v" using assms(1) seq_index_total by blast
  then show ?thesis using True assms(2) by (auto simp add: if_in_range_def)
next
  case False
  then show ?thesis by (simp add: if_in_range_def)
qed

lemma date_str_of_total:
  assumes "idx < int (length xs)" "- int (length xs) \<le> idx"
    and "\<forall>v. seq_index xs idx = Inr v \<longrightarrow> printable rt v"
  shows "\<exists>v. date_str_of rt (JArr xs) idx = Inr v \<and> printable rt v"
proof -
  obtain v where "seq_index xs idx = Inr v" using assms seq_index_total by blast
  then show ?thesis using assms(3) by (auto simp add: date_str_of_def split: sum.splits)
qed

text \<open>
  C1, amended: for every daily dict whose six fields, where present, are arrays, every
  label and every index that is not below minus the length of any of the six arrays, if
  the weather code at the index (when there is one) is not a list or a dict, and no int
  inside the date, the precipitation or the wind at the index has more digits than the
  interpreter's limit for decimal strings, the block is returned without an exception and
  is not empty. Missing keys, short arrays, arrays of different lengths and values of any
  type in the fields are all allowed.
\<close>

theorem day_block_total:
  assumes "dict_get d (asc ''time'') (JArr []) = JArr dates"
    and "dict_get d (asc ''temperature_2m_max'') (JArr []) = JArr tmax"
    and "dict_get d (asc ''temperature_2m_min'') (JArr []) = JArr tmin"
    and "dict_get d (asc ''precipitation_sum'') (JArr []) = JArr precip"
    and "dict_get d (asc ''weathercode'') (JArr []) = JArr wcode"
    and "dict_get d (asc ''windspeed_10m_max'') (JArr []) = JArr wind"
    and reach: "list_all (\<lambda>xs. - int (length xs) \<le> idx) [dates, tmax, tmin, precip, wcode, wind]"
    and code: "\<forall>v. seq_index wcode idx = Inr v \<longrightarrow> hashable v"
    and ints: "list_all (\<lambda>xs. \<forall>v. seq_index xs idx = Inr v \<longrightarrow> printable rt v)
                 [dates, precip, wind]"
  shows "\<exists>s. build_day_block_from_daily rt (JObj d) idx label = Inr s \<and> s \<noteq> []"
proof (cases "int (length dates) \<le> idx")
  case True
  then show ?thesis using assms(1) by (simp add: build_day_block_from_daily_def Let_def asc_def)
next
  case False
  then have "\<exists>v. date_str_of rt (JArr dates) idx = Inr v \<and> printable rt v"
    using reach ints by (intro date_str_of_total) auto
  then obtain dv dt where "date_str_of rt (JArr dates) idx = Inr dv" "py_str rt dv = Inr dt"
    using printable_str by blast
  moreover have "\<exists>s. if_in_range (JArr wcode) idx weather_codes_get = Inr s"
    using reach code weather_codes_get_total by (intro if_in_range_total) auto
  moreover have "\<exists>s. if_in_range (JArr tmax) idx (\<lambda>v. Inr (format_temp v)) = Inr s"
    using reach by (intro if_in_range_total) auto
  moreover have "\<exists>s. if_in_range (JArr tmin) idx (\<lambda>v. Inr (format_temp v)) = Inr s"
    using reach by (intro if_in_range_total) auto
  moreover have "\<exists>s. if_in_range (JArr precip) idx
                       (\<lambda>v. ebind (py_str rt v) (\<lambda>s. Inr (s @ [32, 1084, 1084]))) = Inr s"
  proof (intro if_in_range_total allI impI)
    show "- int (length precip) \<le> idx" using reach by simp
    fix v assume "seq_index precip idx = Inr v"
    then have "printable rt v" using ints by simp
    then show "\<exists>s. ebind (py_str rt v) (\<lambda>s. Inr (s @ [32, 1084, 1084])) = Inr s"
      using printable_str[of rt v] by auto
  qed
  moreover have "\<exists>s. if_in_range (JArr wind) idx
                       (\<lambda>v. ebind (py_str rt v) (\<lambda>s. Inr (s @ [32, 1084, 47, 1089]))) = Inr s"
  proof (intro if_in_range_total allI impI)
    show "- int (length wind) \<le> idx" using reach by simp
    fix v assume "seq_index wind idx = Inr v"
    then have "printable rt v" using ints by simp
    then show "\<exists>s. ebind (py_str rt v) (\<lambda>s. Inr (s @ [32, 1084, 47, 1089])) = Inr s"
      using printable_str[of rt v] by auto
  qed
  ultimately show ?thesis
    using False assms(1-6)
    by (auto simp add: build_day_block_from_daily_def Let_def asc_def)
qed

theorem day_block_total_witness:
  "list_all (\<lambda>xs. - int (length xs) \<le> 0)
     [[JStr (asc ''2024-03-05'')], [JStr (asc ''n/a'')], [], [], [JNull], []]
   \<and> seq_index [JNull] 0 = Inr JNull \<and> hashable JNull
   \<and> list_all (\<lambda>xs. \<forall>v. seq_index xs 0 = Inr v \<longrightarrow> printable rt0 v)
        [[JStr (asc ''2024-03-05'')], [], []]
   \<and> (\<exists>s. build_day_block_from_daily rt0 (JObj partial_fields) 0 today_label = Inr s \<and> s \<noteq> [])"
proof -
  have a: "dict_get partial_fields (asc ''time'') (JArr []) = JArr [JStr (asc ''2024-03-05'')]"
    "dict_get partial_fields (asc ''temperature_2m_max'') (JArr []) = JArr [JStr (asc ''n/a'')]"
    "dict_get partial_fields (asc ''temperature_2m_min'') (JArr []) = JArr []"
    "dict_get partial_fields (asc ''precipitation_sum'') (JArr []) = JArr []"
    "dict_get partial_fields (asc ''weathercode'') (JArr []) = JArr [JNull]"
    "dict_get partial_fields (asc ''windspeed_10m_max'') (JArr []) = JArr []"
    by (simp_all add: dict_get_def partial_fields_def)
  have b: "list_all (\<lambda>xs. - int (length xs) \<le> 0)
     [[JStr (asc ''2024-03-05'')], [JStr (asc ''n/a'')], [], [], [JNull], []]"
    by simp
  have c: "\<forall>v. seq_index [JNull] 0 = Inr v \<longrightarrow> hashable v"
    by simp
  have e: "list_all (\<lambda>xs. \<forall>v. seq_index xs 0 = Inr v \<longrightarrow> printable rt0 v)
        [[JStr (asc ''2024-03-05'')], [], []]"
    by (simp add: seq_index_def)
  show ?thesis
    using b e day_block_total [OF a b c e, of today_label] by simp
qed

subsection \<open>Decimal strings read back\<close>

lemma dec_digits: "c \<in> set (dec n) \<Longrightarrow> 48 \<le> c \<and> c \<le> 57"
proof (induction n arbitrary: c rule: dec.induct)
  case (1 n)
  show ?case
  proof (cases "n < 10")
    case True
    then show ?thesis using "1.prems" by (simp add: dec.simps)
  next
    case False
    then have "dec n = dec (n div 10) @ [48 + n mod 10]" by (subst dec.simps) simp
    then show ?thesis using "1.prems" "1.IH" False by auto
  qed
qed

lemma dec_nonempty: "dec n \<noteq> []"
  by (subst dec.simps) simp

lemma digit_val_ascii: "48 \<le> c \<Longrightarrow> c \<le> 57 \<Longrightarrow> digit_val rt c = Some (c - 48)"
  by (simp add: digit_val_def)

lemma parse_digits_append:
  assumes "\<forall>c \<in> set xs. 48 \<le> c \<and> c \<le> 57"
  shows "parse_digits rt (xs @ ys) acc
         = (case parse_digits rt xs acc of None \<Rightarrow> None | Some a \<Rightarrow> parse_digits rt ys a)"
  using assms
proof (induction xs arbitrary: acc)
  case Nil
  then show ?case by simp
next
  case (Cons x xs)
  then have "x \<noteq> 95" "digit_val rt x = Some (x - 48)" by (auto simp add: digit_val_ascii)
  then show ?case using Cons by simp
qed

lemma parse_digits_dec: "parse_digits rt (dec n) 0 = Some n"
proof (induction n rule: dec.induct)
  case (1 n)
  show ?case
  proof (cases "n < 10")
    case True
    then show ?thesis by (simp add: dec.simps digit_val_def)
  next
    case False
    then have d: "dec n = dec (n div 10) @ [48 + n mod 10]" by (subst dec.simps) simp
    have "parse_digits rt (dec n) 0
          = (case parse_digits rt (dec (n div 10)) 0 of None \<Rightarrow> None
             | Some a \<Rightarrow> parse_digits rt [48 + n mod 10] a)"
      unfolding d using dec_digits by (intro parse_digits_append) blast
    also have "\<dots> = parse_digits rt [48 + n mod 10] (n div 10)"
      using "1.IH" False by simp
    also have "\<dots> = Some n"
      by (simp add: digit_val_def)
    finally show ?thesis .
  qed
qed

lemma digit_not_space: "48 \<le> c \<Longrightarrow> c \<le> 57 \<Longrightarrow> \<not> is_space rt c"
  by (simp add: is_space_def)

lemma strip_dec: "rev (dropWhile (is_space rt) (rev (dropWhile (is_space rt) (dec n)))) = dec n"
proof -
  obtain c cs where a: "dec n = c # cs" using dec_nonempty by (cases "dec n") auto
  then have "\<not> is_space rt c" using dec_digits[of c n] digit_not_space by simp
  then have b: "dropWhile (is_space rt) (dec n) = dec n" using a by simp
  obtain l ls where c: "rev (dec n) = l # ls" using dec_nonempty by (cases "rev (dec n)") auto
  then have "l \<in> set (dec n)" by (metis list.set_intros(1) set_rev)
  then have "\<not> is_space rt l" using dec_digits digit_not_space by blast
  then have "dropWhile (is_space rt) (rev (dec n)) = rev (dec n)" using c by simp
  then show ?thesis using b by simp
qed

lemma dec_no_underscore: "filter (\<lambda>c. c \<noteq> 95) (dec n) = dec n"
proof (intro filter_True ballI)
  fix c assume "c \<in> set (dec n)"
  then have "48 \<le> c \<and> c \<le> 57" by (rule dec_digits)
  then show "c \<noteq> 95" by simp
qed

lemma py_int_dec:
  assumes "within_limit rt (length (dec n))"
  shows "py_int rt (dec n) = Inr (int n)"
proof -
  obtain c cs where a: "dec n = c # cs" using dec_nonempty by (cases "dec n") auto
  then have d: "48 \<le> c \<and> c \<le> 57" using dec_digits[of c n] by simp
  then have v: "digit_val rt c = Some (c - 48)" by (simp add: digit_val_ascii)
  have "parse_digits rt (c # cs) 0 = Some n" using parse_digits_dec[of rt n] a by simp
  then have p: "parse_digits rt cs (c - 48) = Some n" using d v by simp
  have l: "within_limit rt (length (filter (\<lambda>c. c \<noteq> 95) (c # cs)))"
    using assms dec_no_underscore[of n] a by simp
  show ?thesis
    unfolding py_int_def strip_dec using a d v p l by (simp add: Let_def)
qed

lemma py_int_minus_dec:
  assumes "within_limit rt (length (dec n))"
  shows "py_int rt (asc ''-'' @ dec n) = Inr (- int n)"
proof -
  obtain c cs where a: "dec n = c # cs" using dec_nonempty by (cases "dec n") auto
  then have d: "48 \<le> c \<and> c \<le> 57" using dec_digits[of c n] by simp
  then have v: "digit_val rt c = Some (c - 48)" by (simp add: digit_val_ascii)
  have "parse_digits rt (c # cs) 0 = Some n" using parse_digits_dec[of rt n] a by simp
  then have p: "parse_digits rt cs (c - 48) = Some n" using d v by simp
  have l: "within_limit rt (length (filter (\<lambda>c. c \<noteq> 95) (c # cs)))"
    using assms dec_no_underscore[of n] a by simp
  obtain l ls where c: "rev (dec n) = l # ls" using dec_nonempty by (cases "rev (dec n)") auto
  then have "l \<in> set (dec n)" by (metis list.set_intros(1) set_rev)
  then have "\<not> is_space rt l" using dec_digits digit_not_space by blast
  then have "dropWhile (is_space rt) (rev (dec n) @ [45]) = rev (dec n) @ [45]" using c by simp
  then have "rev (dropWhile (is_space rt) (rev (dropWhile (is_space rt) (asc ''-'' @ dec n))))
             = 45 # dec n"
    by (simp add: asc_def is_space_def)
  then show ?thesis
    unfolding py_int_def using a d v p l by (simp add: Let_def)
qed

text \<open>\<open>int(str(n)) == n\<close> for every int that \<open>str\<close> prints.\<close>

lemma py_int_str_int:
  "within_limit rt (length (dec (nat \<bar>n\<bar>))) \<Longrightarrow> py_int rt (str_int n) = Inr n"
  by (cases "n < 0") (simp_all add: str_int_def py_int_dec py_int_minus_dec abs_if)

text \<open>Different ints have different decimal strings.\<close>

lemma dec_inject:
  assumes "dec m = dec n"
  shows "m = n"
proof -
  have "Some m = parse_digits rt0 (dec m) 0" by (simp only: parse_digits_dec)
  also have "\<dots> = parse_digits rt0 (dec n) 0" by (simp only: assms)
  also have "\<dots> = Some n" by (simp only: parse_digits_dec)
  finally show ?thesis by simp
qed

lemma minus_dec_neq: "asc ''-'' @ dec m \<noteq> dec n"
proof
  assume "asc ''-'' @ dec m = dec n"
  then have "dec n = 45 # dec m" by (simp add: asc_def)
  then have "45 \<in> set (dec n)" by simp
  then show False using dec_digits[of 45 n] by simp
qed

lemma str_int_inject: "str_int a = str_int b \<Longrightarrow> a = b"
proof -
  assume eq: "str_int a = str_int b"
  show ?thesis
  proof (cases "a < 0")
    case True
    show ?thesis
    proof (cases "b < 0")
      case True
      with \<open>a < 0\<close> eq have "dec (nat (- a)) = dec (nat (- b))" by (simp add: str_int_def)
      then have "nat (- a) = nat (- b)" by (rule dec_inject)
      with True \<open>a < 0\<close> show ?thesis by simp
    next
      case False
      with \<open>a < 0\<close> eq show ?thesis using minus_dec_neq by (simp add: str_int_def)
    qed
  next
    case False
    show ?thesis
    proof (cases "b < 0")
      case True
      with \<open>\<not> a < 0\<close> eq show ?thesis using minus_dec_neq[of "nat (- b)" "nat a"]
        by (simp add: str_int_def)
    next
      case F: False
      with False eq have "dec (nat a) = dec (nat b)" by (simp add: str_int_def)
      then have "nat a = nat b" by (rule dec_inject)
      with False F show ?thesis by simp
    qed
  qed
qed

subsection \<open>A negative index\<close>

lemma seq_index_from_end:
  "- int (length xs) \<le> i \<Longrightarrow> i < 0 \<Longrightarrow> seq_index xs i = seq_index xs (int (length xs) + i)"
  by (simp add: seq_index_def)

lemma if_in_range_from_end:
  "- int (length xs) \<le> i \<Longrightarrow> i < 0 \<Longrightarrow>
   if_in_range (JArr xs) i f = if_in_range (JArr xs) (int (length xs) + i) f"
  by (simp add: if_in_range_def seq_index_from_end)

lemma date_str_of_from_end:
  "- int (length xs) \<le> i \<Longrightarrow> i < 0 \<Longrightarrow>
   date_str_of rt (JArr xs) i = date_str_of rt (JArr xs) (int (length xs) + i)"
  by (simp add: date_str_of_def seq_index_from_end cong: sum.case_cong)

lemma day_block_from_end:
  assumes "dict_get d (asc ''time'') (JArr []) = JArr dates"
    and "dict_get d (asc ''temperature_2m_max'') (JArr []) = JArr tmax"
    and "dict_get d (asc ''temperature_2m_min'') (JArr []) = JArr tmin"
    and "dict_get d (asc ''precipitation_sum'') (JArr []) = JArr precip"
    and "dict_get d (asc ''weathercode'') (JArr []) = JArr wcode"
    and "dict_get d (asc ''windspeed_10m_max'') (JArr []) = JArr wind"
    and same: "list_all (\<lambda>xs. length xs = length dates) [tmax, tmin, precip, wcode, wind]"
    and idx: "- int (length dates) \<le> idx" "idx < 0"
  shows "build_day_block_from_daily rt (JObj d) idx label
         = build_day_block_from_daily rt (JObj d) (int (length dates) + idx) label"
proof -
  have lens: "length tmax = length dates" "length tmin = length dates"
    "length precip = length dates" "length wcode = length dates" "length wind = length dates"
    using same by simp_all
  have "if_in_range (JArr wcode) idx f = if_in_range (JArr wcode) (int (length dates) + idx) f"
       "if_in_range (JArr tmax) idx f = if_in_range (JArr tmax) (int (length dates) + idx) f"
       "if_in_range (JArr tmin) idx f = if_in_range (JArr tmin) (int (length dates) + idx) f"
       "if_in_range (JArr precip) idx f = if_in_range (JArr precip) (int (length dates) + idx) f"
       "if_in_range (JArr wind) idx f = if_in_range (JArr wind) (int (length dates) + idx) f"
    for f
    using lens idx if_in_range_from_end by metis+
  moreover have "date_str_of rt (JArr dates) idx
                 = date_str_of rt (JArr dates) (int (length dates) + idx)"
    using idx by (rule date_str_of_from_end)
  ultimately show ?thesis
    using assms(1-6) idx by (simp add: build_day_block_from_daily_def Let_def)
qed

lemma day_block_not_no_data:
  assumes "dict_get d (asc ''time'') (JArr []) = JArr dates" "idx < int (length dates)"
  shows "build_day_block_from_daily rt (JObj d) idx label
         \<noteq> Inr (asc ''*'' @ label @ asc ''*'' @ nl @ no_data @ nl)"
  using assms
  by (auto simp add: build_day_block_from_daily_def Let_def ebind_def asc_def split: sum.splits)


subsection \<open>The store\<close>

lemma dict_get_update_same: "dict_get (AList.update k v st) k d = v"
  by (simp add: dict_get_def update_conv')

lemma dict_get_update_other: "k' \<noteq> k \<Longrightarrow> dict_get (AList.update k v st) k' d = dict_get st k' d"
  by (simp add: dict_get_def update_conv')

lemma filter_update_distinct:
  "distinct (map fst st) \<Longrightarrow> filter (\<lambda>kv. fst kv = k) (AList.update k v st) = [(k, v)]"
proof (induction st)
  case Nil
  then show ?case by simp
next
  case (Cons p st)
  obtain k' v' where p: "p = (k', v')" by (cases p)
  show ?case
  proof (cases "k' = k")
    case True
    then have "k \<notin> fst ` set st" using Cons.prems p by auto
    then have "filter (\<lambda>kv. fst kv = k) st = []" by (auto simp add: filter_empty_conv)
    then show ?thesis using True p by simp
  next
    case False
    then show ?thesis using Cons p by simp
  qed
qed

lemma load_store_cases:
  "load_store w = (JObj [], w) \<and> content w = NoFile
   \<or> (\<exists>j. load_store w = (j, w) \<and> content w = Doc j \<and> readable w)
   \<or> load_store w = (JObj [], w\<lparr>logs := logs w @ [LoadFailed]\<rparr>) \<and> content w \<noteq> NoFile
       \<and> (content w = Garbage \<or> \<not> readable w)"
  by (cases "content w") (auto simp add: load_store_def read_store_def)

lemma load_store_quiet:
  assumes "load_store w = (s, w1)" "logs w1 = logs w"
  shows "w1 = w \<and> (content w = NoFile \<and> s = JObj [] \<or> content w = Doc s \<and> readable w)"
  using load_store_cases[of w] assms by auto

lemma load_store_logs:
  "load_store w = (s, w1) \<Longrightarrow> logs w1 = logs w \<or> logs w1 = logs w @ [LoadFailed]"
  using load_store_cases[of w] by auto

lemma load_store_frame:
  "load_store w = (s, w1) \<Longrightarrow> content w1 = content w \<and> readable w1 = readable w \<and> wfault w1 = wfault w"
  using load_store_cases[of w] by auto

lemma save_store_cases:
  "save_store rt s w = w\<lparr>content := Doc s\<rparr> \<and> wfault w = NoFault \<and> dumpable rt s
   \<or> save_store rt s w = w\<lparr>logs := logs w @ [SaveFailed]\<rparr> \<and> wfault w = OpenFault
   \<or> save_store rt s w = w\<lparr>content := Garbage, logs := logs w @ [SaveFailed]\<rparr>
       \<and> wfault w \<noteq> OpenFault \<and> (wfault w = WriteFault \<or> \<not> dumpable rt s)"
  by (cases "wfault w") (auto simp add: save_store_def write_store_def)

lemma save_store_quiet:
  "logs (save_store rt s w) = logs w \<Longrightarrow> save_store rt s w = w\<lparr>content := Doc s\<rparr>"
  using save_store_cases[of rt s w] by auto

lemma save_store_logs:
  "logs (save_store rt s w) = logs w \<or> logs (save_store rt s w) = logs w @ [SaveFailed]"
  using save_store_cases[of rt s w] by auto

lemma save_cases:
  assumes "save_last_forecast rt now cid api w = (r, w')"
  shows "(\<exists>e s. r = Inl e \<and> load_store w = (s, w'))
       \<or> (\<exists>a txt st w1. r = Inr () \<and> api = JObj a
             \<and> build_full_forecast_message rt api = Inr txt
             \<and> str_of_int rt cid = Inr (str_int cid)
             \<and> load_store w = (JObj st, w1)
             \<and> w' = save_store rt (JObj (AList.update (str_int cid)
                       (entry now (dict_get a (asc ''daily'') (JObj [])) txt) st)) w1)"
  using assms
  by (auto simp add: save_last_forecast_def Let_def str_of_int_def
      split: prod.splits json.splits sum.splits if_splits)

lemma save_quiet:
  assumes "save_last_forecast rt now cid api w = (Inr (), w')" "logs w' = logs w"
  shows "\<exists>a txt st. api = JObj a \<and> build_full_forecast_message rt api = Inr txt
           \<and> str_of_int rt cid = Inr (str_int cid)
           \<and> (content w = NoFile \<and> st = [] \<or> content w = Doc (JObj st) \<and> readable w)
           \<and> w' = w\<lparr>content := Doc (JObj (AList.update (str_int cid)
                      (entry now (dict_get a (asc ''daily'') (JObj [])) txt) st))\<rparr>"
proof -
  from save_cases[OF assms(1)] obtain a msg st w1 where
    st: "api = JObj a" "build_full_forecast_message rt api = Inr msg"
      "str_of_int rt cid = Inr (str_int cid)" "load_store w = (JObj st, w1)"
      "w' = save_store rt (JObj (AList.update (str_int cid)
               (entry now (dict_get a (asc ''daily'') (JObj [])) msg) st)) w1"
    by auto
  let ?s = "JObj (AList.update (str_int cid)
               (entry now (dict_get a (asc ''daily'') (JObj [])) msg) st)"
  have a: "logs w1 = logs w \<or> logs w1 = logs w @ [LoadFailed]"
    by (rule load_store_logs[OF st(4)])
  have b: "logs w' = logs w1 \<or> logs w' = logs w1 @ [SaveFailed]"
    using save_store_logs[of rt ?s w1] st(5) by simp
  have "length (logs w) \<le> length (logs w1)" "length (logs w1) \<le> length (logs w')"
    using a b by auto
  then have "length (logs w1) = length (logs w)" "length (logs w') = length (logs w1)"
    using assms(2) by simp_all
  then have "logs w1 = logs w \<and> logs w' = logs w1"
    using a b by auto
  then have "w1 = w \<and> (content w = NoFile \<and> JObj st = JObj [] \<or> content w = Doc (JObj st) \<and> readable w)"
    and "w' = w1\<lparr>content := Doc ?s\<rparr>"
    using load_store_quiet[OF st(4)] save_store_quiet[of rt ?s w1] st(5) by auto
  then show ?thesis using st by auto
qed

subsection \<open>The day callback\<close>

lemma day_payload:
  "list_ex (\<lambda>c. c = 58) (asc ''day:'' @ s)"
  "drop 1 (dropWhile (\<lambda>c. c \<noteq> 58) (asc ''day:'' @ s)) = s"
  "day_filter (asc ''day:'' @ s)"
  by (simp_all add: asc_def day_filter_def)

lemma length_str_int: "length (dec (nat \<bar>n\<bar>)) \<le> length (str_int n)"
  by (simp add: str_int_def abs_if)

lemma cb_day_cached:
  assumes "get_last_forecast rt chat_id w = (Inr (JObj l), w1)" "l \<noteq> []"
    and "within_limit rt (length (dec (nat \<bar>idx\<bar>)))"
  shows "cb_day_callback rt now net chat_id (asc ''day:'' @ str_int idx) w
         = (case build_day_block_from_daily rt (dict_get l (asc ''daily'') (JObj [])) idx
                  (day_label idx) of
              Inl e \<Rightarrow> (Some e, [AnswerCallback], w1)
            | Inr block \<Rightarrow> (None, [AnswerCallback, Send block Markdown MainKb], w1))"
proof -
  have "py_truthy (JObj l)" using assms(2) by (cases l) simp_all
  then show ?thesis
    unfolding cb_day_callback_def Let_def
    by (simp only: day_payload py_int_str_int[OF assms(3)] assms(1) not_True_eq_False
        if_False if_True sum.case prod.case json.case)
qed

subsection \<open>The scenario, saved\<close>

lemma scenario_second_day:
  "build_day_block_from_daily rt scenario_daily 1 label
   = Inr (asc ''*'' @ label @ asc ''*'' @ nl @ no_data @ nl)"
  by (simp add: build_day_block_from_daily_def scenario_daily_def dict_get_def)

lemma scenario_message: "build_full_forecast_message rt scenario_api = Inr scenario_text"
  by (simp add: build_full_forecast_message_def scenario_api_def dict_get_def scenario_renders
      scenario_second_day scenario_text_def)

lemma str_of_small:
  "str_of_int rt 7 = Inr (asc ''7'')" "str_of_int rt 2 = Inr (asc ''2'')"
  by (simp_all add: str_of_int_def str_int_def dec.simps asc_def within_limit_640)

lemma no_surrogate_simps:
  "no_surrogate [] = True"
  "no_surrogate (c # s) = ((c < 55296 \<or> 57343 < c) \<and> no_surrogate s)"
  "no_surrogate (s @ t) = (no_surrogate s \<and> no_surrogate t)"
  by (simp_all add: no_surrogate_def)

lemma no_surrogate_asc: "no_surrogate (asc s)"
proof -
  have "of_char c < (55296 :: nat)" for c
  proof -
    have "(of_char c :: nat) mod 256 < 256" by simp
    then have "(of_char c :: nat) < 256" by (simp only: of_char_mod_256)
    then show ?thesis by linarith
  qed
  then show ?thesis by (simp add: asc_def no_surrogate_def list_all_iff)
qed

lemma no_surrogate_scenario_text: "no_surrogate scenario_text"
  by (simp add: scenario_text_def scenario_block_def no_surrogate_simps no_surrogate_asc
      today_label_def tomorrow_label_def nl_def no_data_def pasmurno_def)

lemma dumpable_scenario_entry: "dumpable rt0 (entry now0 scenario_daily scenario_text)"
  by (simp add: entry_def scenario_daily_def now0_def no_surrogate_simps no_surrogate_asc
      no_surrogate_scenario_text within_limit_640 dec.simps)

lemma cached_world_eq:
  "cached_world
   = w0\<lparr>content := Doc (JObj [(asc ''7'', entry now0 scenario_daily scenario_text)])\<rparr>"
  by (simp add: cached_world_def save_last_forecast_def load_store_def w0_def
      scenario_message[unfolded scenario_api_def]
      str_of_small scenario_api_def dict_get_def save_store_def write_store_def
      dumpable_scenario_entry no_surrogate_asc)

lemma surrogate_message: "\<exists>s. build_full_forecast_message rt0 surrogate_api = Inr s"
  by (simp add: build_full_forecast_message_def surrogate_api_def dict_get_def
      build_day_block_from_daily_def if_in_range_def date_str_of_def seq_index_def
      strptime_ymd_def regex_match_ymd_def)

lemma surrogate_not_dumpable:
  "\<not> dumpable rt0 (JObj (AList.update k (entry now (JObj [(asc ''time'', JArr [JStr [55296]])]) s) st))"
proof -
  have "\<not> dumpable rt0 (entry now (JObj [(asc ''time'', JArr [JStr [55296]])]) s)"
    by (simp add: entry_def no_surrogate_def)
  moreover have "\<not> dumpable rt v \<Longrightarrow> \<not> dumpable_items rt (AList.update k v st)" for rt v
    by (induction st) auto
  ultimately show ?thesis by simp
qed

subsection \<open>A negative index, from the day callback\<close>

text \<open>
  C10, as stated: for every negative index with \<open>-len(daily.time) <= idx < 0\<close> and a
  non-empty date sequence, the block is not the no-data block but the day at position
  \<open>len + idx\<close>. It does not hold when a value array is shorter than the dates: with the
  dates alone, index -1 passes the guard of the description, and \<open>codes[idx]\<close> on the
  missing, so empty, code array raises IndexError.
\<close>

theorem negative_index_counterexample:
  "build_day_block_from_daily rt0 dates_only (- 1) tomorrow_label = Inl IndexError"
  by (simp add: build_day_block_from_daily_def dates_only_def dict_get_def if_in_range_def
      date_str_of_def seq_index_def strptime_ymd_def regex_match_ymd_def asc_def digit_val_def
      month_day_matches_def month_alts_def day_alts_def days_in_month_def is_leap_def)

text \<open>
  C10, amended: when the six fields are arrays of one length, for every index with
  \<open>-len(daily.time) <= idx < 0\<close> the block is what the index \<open>len + idx\<close> gives (the same
  text, or the same exception if that day's code is unhashable or an int of that day is
  beyond the digit limit), and it is never the no-data block. Such an index is reached
  from the chat: the payload "day:" followed by the decimal index, within the 64 bytes of
  a callback payload, passes the filter of the handler, and with an entry in the cache the
  handler answers the callback and sends exactly that block of the cached data, under the
  label "Zavtra", or raises what the formatter raises.
\<close>

theorem negative_index_from_end:
  assumes "dict_get d (asc ''time'') (JArr []) = JArr dates"
    and "dict_get d (asc ''temperature_2m_max'') (JArr []) = JArr tmax"
    and "dict_get d (asc ''temperature_2m_min'') (JArr []) = JArr tmin"
    and "dict_get d (asc ''precipitation_sum'') (JArr []) = JArr precip"
    and "dict_get d (asc ''weathercode'') (JArr []) = JArr wcode"
    and "dict_get d (asc ''windspeed_10m_max'') (JArr []) = JArr wind"
    and same: "list_all (\<lambda>xs. length xs = length dates) [tmax, tmin, precip, wcode, wind]"
    and idx: "- int (length dates) \<le> idx" "idx < 0"
    and cache: "get_last_forecast rt chat_id w = (Inr (JObj l), w1)"
      "dict_get l (asc ''daily'') (JObj []) = JObj d"
    and size: "length (asc ''day:'' @ str_int idx) \<le> 64"
  shows "build_day_block_from_daily rt (JObj d) idx label
           = build_day_block_from_daily rt (JObj d) (int (length dates) + idx) label
       \<and> build_day_block_from_daily rt (JObj d) idx label
           \<noteq> Inr (asc ''*'' @ label @ asc ''*'' @ nl @ no_data @ nl)
       \<and> day_filter (asc ''day:'' @ str_int idx)
       \<and> cb_day_callback rt now net chat_id (asc ''day:'' @ str_int idx) w
           = (case build_day_block_from_daily rt (JObj d) idx tomorrow_label of
                Inl e \<Rightarrow> (Some e, [AnswerCallback], w1)
              | Inr block \<Rightarrow> (None, [AnswerCallback, Send block Markdown MainKb], w1))"
proof (intro conjI)
  show "build_day_block_from_daily rt (JObj d) idx label
           = build_day_block_from_daily rt (JObj d) (int (length dates) + idx) label"
    using assms(1-6) same idx by (rule day_block_from_end)
  show "build_day_block_from_daily rt (JObj d) idx label
           \<noteq> Inr (asc ''*'' @ label @ asc ''*'' @ nl @ no_data @ nl)"
    using assms(1) idx by (intro day_block_not_no_data) auto
  show "day_filter (asc ''day:'' @ str_int idx)"
    by (rule day_payload)
  have "dates \<noteq> []" using idx by auto
  then have "d \<noteq> []" using assms(1) by (auto simp add: dict_get_def)
  then have l: "l \<noteq> []" using cache(2) by (auto simp add: dict_get_def)
  have "length (dec (nat \<bar>idx\<bar>)) \<le> 640"
    using size length_str_int[of idx] by simp
  then have lim: "within_limit rt (length (dec (nat \<bar>idx\<bar>)))"
    by (rule within_limit_640)
  have "day_label idx = tomorrow_label" using idx by (simp add: day_label_def)
  then show "cb_day_callback rt now net chat_id (asc ''day:'' @ str_int idx) w
           = (case build_day_block_from_daily rt (JObj d) idx tomorrow_label of
                Inl e \<Rightarrow> (Some e, [AnswerCallback], w1)
              | Inr block \<Rightarrow> (None, [AnswerCallback, Send block Markdown MainKb], w1))"
    using cb_day_cached[OF cache(1) l lim] cache(2) by simp
qed

lemma cached_world_entry:
  "get_last_forecast rt0 7 cached_world
   = (Inr (entry now0 scenario_daily scenario_text), cached_world)"
  by (simp add: cached_world_eq get_last_forecast_def load_store_def read_store_def w0_def
      str_of_small dict_get_def)

theorem negative_index_from_end_witness:
  "get_last_forecast rt0 7 cached_world
     = (Inr (entry now0 scenario_daily scenario_text), cached_world)
   \<and> length (asc ''day:-1'') \<le> 64
   \<and> day_filter (asc ''day:-1'')
   \<and> build_day_block_from_daily rt0 scenario_daily (- 1) tomorrow_label
       = Inr (scenario_block tomorrow_label)
   \<and> cb_day_callback rt0 now0 TimedOut 7 (asc ''day:-1'') cached_world
       = (None, [AnswerCallback, Send (scenario_block tomorrow_label) Markdown MainKb],
          cached_world)"
proof -
  define d where "d = [(asc ''time'', JArr [JStr (asc ''2024-03-05'')]),
           (asc ''temperature_2m_max'', JArr [JFloat (Finite False 5854679515581645 (- 50))]),
           (asc ''temperature_2m_min'', JArr [JInt (- 3)]),
           (asc ''precipitation_sum'', JArr [JInt 0]),
           (asc ''weathercode'', JArr [JInt 3]),
           (asc ''windspeed_10m_max'', JArr [JInt 12])]"
  have sd: "scenario_daily = JObj d" by (simp add: scenario_daily_def d_def)
  have a: "dict_get d (asc ''time'') (JArr []) = JArr [JStr (asc ''2024-03-05'')]"
    "dict_get d (asc ''temperature_2m_max'') (JArr [])
       = JArr [JFloat (Finite False 5854679515581645 (- 50))]"
    "dict_get d (asc ''temperature_2m_min'') (JArr []) = JArr [JInt (- 3)]"
    "dict_get d (asc ''precipitation_sum'') (JArr []) = JArr [JInt 0]"
    "dict_get d (asc ''weathercode'') (JArr []) = JArr [JInt 3]"
    "dict_get d (asc ''windspeed_10m_max'') (JArr []) = JArr [JInt 12]"
    by (simp_all add: dict_get_def d_def)
  have same: "list_all (\<lambda>xs. length xs = length [JStr (asc ''2024-03-05'')])
     [[JFloat (Finite False 5854679515581645 (- 50))], [JInt (- 3)], [JInt 0], [JInt 3],
      [JInt 12]]"
    by simp
  have idx: "- int (length [JStr (asc ''2024-03-05'')]) \<le> - 1" "(- 1 :: int) < 0"
    by simp_all
  have s: "asc ''day:'' @ str_int (- 1) = asc ''day:-1''"
    by (simp add: str_int_def dec_small asc_def)
  have cache: "get_last_forecast rt0 7 cached_world
     = (Inr (JObj [(asc ''ts'', JStr (now0 @ asc ''Z'')), (asc ''daily'', scenario_daily),
                   (asc ''text'', JStr scenario_text)]), cached_world)"
    "dict_get [(asc ''ts'', JStr (now0 @ asc ''Z'')), (asc ''daily'', scenario_daily),
               (asc ''text'', JStr scenario_text)] (asc ''daily'') (JObj []) = JObj d"
    using cached_world_entry by (simp_all add: entry_def dict_get_def sd)
  have size: "length (asc ''day:'' @ str_int (- 1)) \<le> 64"
    by (simp add: s) (simp add: asc_def)
  have r: "build_day_block_from_daily rt0 (JObj d) (int (length [JStr (asc ''2024-03-05'')]) + - 1)
             tomorrow_label = Inr (scenario_block tomorrow_label)"
    using scenario_renders[of rt0 tomorrow_label] by (simp add: sd)
  show ?thesis
    using negative_index_from_end [OF a same idx cache size, of tomorrow_label now0 TimedOut]
      cached_world_entry size r
    by (simp add: s sd)
qed


end
